theory Spec2Isabelle
  imports Main "HOL-Library.Word"
begin

unbundle bit_operations_syntax

section \<open>Strings of the host language\<close>

text \<open>
  The program is the single React component of \<^verbatim>\<open>src/App.tsx\<close>. Its strings are
  JavaScript strings: finite sequences of 16-bit code units. A literal of the source is
  written \<open>js ''...''\<close>; the literals of the source are all ASCII, so each character
  is one code unit.
\<close>

type_synonym code_unit = "16 word"
type_synonym jsstring = "code_unit list"

definition js :: "string \<Rightarrow> jsstring" where
  "js s = map (\<lambda>c. of_nat (of_char c)) s"

subsection \<open>\<^verbatim>\<open>String.prototype.trim\<close>\<close>

text \<open>
  \<^verbatim>\<open>trim\<close> removes, at both ends, the code units that the language calls white space
  or line terminator: TAB, LF, VT, FF, CR, SPACE, NBSP, U+1680, U+2000 to U+200A,
  U+2028, U+2029, U+202F, U+205F, U+3000 and U+FEFF.
\<close>

definition isTrimWhiteSpace :: "code_unit \<Rightarrow> bool" where
  "isTrimWhiteSpace c \<longleftrightarrow>
     c = 0x0009 \<or> c = 0x000A \<or> c = 0x000B \<or> c = 0x000C \<or> c = 0x000D \<or>
     c = 0x0020 \<or> c = 0x00A0 \<or> c = 0x1680 \<or> (0x2000 \<le> c \<and> c \<le> 0x200A) \<or>
     c = 0x2028 \<or> c = 0x2029 \<or> c = 0x202F \<or> c = 0x205F \<or> c = 0x3000 \<or>
     c = 0xFEFF"

definition trim :: "jsstring \<Rightarrow> jsstring" where
  "trim s = rev (dropWhile isTrimWhiteSpace (rev (dropWhile isTrimWhiteSpace s)))"

subsection \<open>\<^verbatim>\<open>text.match(/\[[\s\S]*\]/)\<close>\<close>

text \<open>
  The regular expression of line 120 has no flag: the match is the first one from the
  left, and the star is greedy. \<open>matchStarBracket\<close> is the part \<^verbatim>\<open>[\s\S]*\]\<close> anchored
  at the head of its argument: the star takes one more code unit whenever the rest can
  still be matched, and gives back otherwise. \<open>matchHere\<close> is the whole expression
  anchored at the head, and \<open>matchBracketed\<close> tries the start positions from left to
  right. The result is element 0 of the match array, or \<open>None\<close> for \<^verbatim>\<open>null\<close>.
\<close>

fun matchStarBracket :: "jsstring \<Rightarrow> jsstring option" where
  "matchStarBracket [] = None"
| "matchStarBracket (c # cs) =
     (case matchStarBracket cs of
        Some m \<Rightarrow> Some (c # m)
      | None \<Rightarrow> if c = 0x5D then Some [c] else None)"

definition matchHere :: "jsstring \<Rightarrow> jsstring option" where
  "matchHere cs =
     (case cs of
        [] \<Rightarrow> None
      | c # r \<Rightarrow>
          if c = 0x5B then
            (case matchStarBracket r of None \<Rightarrow> None | Some m \<Rightarrow> Some (c # m))
          else None)"

fun matchBracketed :: "jsstring \<Rightarrow> jsstring option" where
  "matchBracketed [] = None"
| "matchBracketed (c # cs) =
     (case matchHere (c # cs) of
        Some m \<Rightarrow> Some m
      | None \<Rightarrow> matchBracketed cs)"

section \<open>JSON\<close>

text \<open>
  The values that \<^verbatim>\<open>JSON.parse\<close> returns and \<^verbatim>\<open>JSON.stringify\<close> prints. An object
  is the list of its own properties in the order in which the language enumerates them.
  A number is kept as the numeric literal it was read from and is printed as that
  literal: the IEEE-754 value of a literal and its shortest decimal printing are
  floating-point matters that stay outside this development, and no property below
  depends on the value of a number.
\<close>

datatype json = JNull | JBool bool | JNumber jsstring | JString jsstring
  | JArray "json list" | JObject "(jsstring \<times> json) list"

subsection \<open>\<^verbatim>\<open>JSON.stringify\<close>\<close>

text \<open>
  \<open>QuoteJSONString\<close> follows the language standard: the two-character escapes for
  backspace, tab, line feed, form feed, carriage return, the quote and the backslash;
  a \<^verbatim>\<open>\uXXXX\<close> escape with lower-case digits for the other code units below
  U+0020 and for a surrogate that is not part of a pair; every other code unit as it is.
\<close>

definition isLeadSurrogate :: "code_unit \<Rightarrow> bool" where
  "isLeadSurrogate c \<longleftrightarrow> 0xD800 \<le> c \<and> c \<le> 0xDBFF"

definition isTrailSurrogate :: "code_unit \<Rightarrow> bool" where
  "isTrailSurrogate c \<longleftrightarrow> 0xDC00 \<le> c \<and> c \<le> 0xDFFF"

definition hexDigit :: "code_unit \<Rightarrow> code_unit" where
  "hexDigit n = (if n < 10 then 0x30 + n else 0x61 + (n - 10))"

definition UnicodeEscape :: "code_unit \<Rightarrow> jsstring" where
  "UnicodeEscape c =
     [0x5C, 0x75, hexDigit (drop_bit 12 c), hexDigit (drop_bit 8 c AND 0xF),
      hexDigit (drop_bit 4 c AND 0xF), hexDigit (c AND 0xF)]"

definition QuoteUnit :: "code_unit \<Rightarrow> jsstring" where
  "QuoteUnit c =
     (if c = 0x08 then [0x5C, 0x62]
      else if c = 0x09 then [0x5C, 0x74]
      else if c = 0x0A then [0x5C, 0x6E]
      else if c = 0x0C then [0x5C, 0x66]
      else if c = 0x0D then [0x5C, 0x72]
      else if c = 0x22 then [0x5C, 0x22]
      else if c = 0x5C then [0x5C, 0x5C]
      else if c < 0x20 \<or> isLeadSurrogate c \<or> isTrailSurrogate c then UnicodeEscape c
      else [c])"

fun QuoteBody :: "jsstring \<Rightarrow> jsstring" where
  "QuoteBody [] = []"
| "QuoteBody [c] = QuoteUnit c"
| "QuoteBody (c # d # ds) =
     (if isLeadSurrogate c \<and> isTrailSurrogate d then c # d # QuoteBody ds
      else QuoteUnit c @ QuoteBody (d # ds))"

definition QuoteJSONString :: "jsstring \<Rightarrow> jsstring" where
  "QuoteJSONString s = 0x22 # QuoteBody s @ [0x22]"

fun joinComma :: "jsstring list \<Rightarrow> jsstring" where
  "joinComma [] = []"
| "joinComma [x] = x"
| "joinComma (x # y # ys) = x @ 0x2C # joinComma (y # ys)"

fun JSON_stringify :: "json \<Rightarrow> jsstring" where
  "JSON_stringify JNull = js ''null''"
| "JSON_stringify (JBool b) = (if b then js ''true'' else js ''false'')"
| "JSON_stringify (JNumber n) = n"
| "JSON_stringify (JString s) = QuoteJSONString s"
| "JSON_stringify (JArray vs) = 0x5B # joinComma (map JSON_stringify vs) @ [0x5D]"
| "JSON_stringify (JObject ps) =
     0x7B # joinComma (map (\<lambda>p. QuoteJSONString (fst p) @ 0x3A # JSON_stringify (snd p)) ps)
       @ [0x7D]"

subsection \<open>\<^verbatim>\<open>JSON.parse\<close>: the lexical level\<close>

text \<open>
  \<open>lexString\<close> reads a string literal after its opening quote and returns its value
  and the rest of the input: an unescaped code unit below U+0020 is refused, a
  backslash introduces one of the eight short escapes or \<^verbatim>\<open>\u\<close> and four
  hexadecimal digits of either case.
\<close>

definition hexValue :: "code_unit \<Rightarrow> code_unit option" where
  "hexValue h =
     (if 0x30 \<le> h \<and> h \<le> 0x39 then Some (h - 0x30)
      else if 0x61 \<le> h \<and> h \<le> 0x66 then Some (h - 0x61 + 10)
      else if 0x41 \<le> h \<and> h \<le> 0x46 then Some (h - 0x41 + 10)
      else None)"

definition hex4 :: "code_unit \<Rightarrow> code_unit \<Rightarrow> code_unit \<Rightarrow> code_unit \<Rightarrow> code_unit option" where
  "hex4 a b c d =
     (case (hexValue a, hexValue b, hexValue c, hexValue d) of
        (Some x3, Some x2, Some x1, Some x0) \<Rightarrow>
          Some (push_bit 12 x3 OR push_bit 8 x2 OR push_bit 4 x1 OR x0)
      | _ \<Rightarrow> None)"

definition unescape :: "code_unit \<Rightarrow> code_unit option" where
  "unescape e =
     (if e = 0x22 then Some 0x22
      else if e = 0x5C then Some 0x5C
      else if e = 0x2F then Some 0x2F
      else if e = 0x62 then Some 0x08
      else if e = 0x66 then Some 0x0C
      else if e = 0x6E then Some 0x0A
      else if e = 0x72 then Some 0x0D
      else if e = 0x74 then Some 0x09
      else None)"

definition consFst :: "'a \<Rightarrow> ('a list \<times> 'b) option \<Rightarrow> ('a list \<times> 'b) option" where
  "consFst x r = (case r of None \<Rightarrow> None | Some (xs, rest) \<Rightarrow> Some (x # xs, rest))"

fun lexString :: "jsstring \<Rightarrow> (jsstring \<times> jsstring) option" where
  "lexString [] = None"
| "lexString (c # cs) =
     (if c = 0x22 then Some ([], cs)
      else if c = 0x5C then
        (case cs of
           [] \<Rightarrow> None
         | e # es \<Rightarrow>
             if e = 0x75 then
               (case es of
                  h1 # h2 # h3 # h4 # r \<Rightarrow>
                    (case hex4 h1 h2 h3 h4 of
                       None \<Rightarrow> None
                     | Some u \<Rightarrow> consFst u (lexString r))
                | _ \<Rightarrow> None)
             else
               (case unescape e of
                  None \<Rightarrow> None
                | Some u \<Rightarrow> consFst u (lexString es)))
      else if c < 0x20 then None
      else consFst c (lexString cs))"

text \<open>
  A numeric literal: an optional minus, \<^verbatim>\<open>0\<close> or a digit sequence, an optional
  fraction, an optional exponent. Each part returns what it read and the rest.
\<close>

definition isDigit :: "code_unit \<Rightarrow> bool" where
  "isDigit c \<longleftrightarrow> 0x30 \<le> c \<and> c \<le> 0x39"

definition lexDigits :: "jsstring \<Rightarrow> (jsstring \<times> jsstring) option" where
  "lexDigits cs =
     (if takeWhile isDigit cs = [] then None
      else Some (takeWhile isDigit cs, dropWhile isDigit cs))"

definition lexInt :: "jsstring \<Rightarrow> (jsstring \<times> jsstring) option" where
  "lexInt cs =
     (case cs of
        [] \<Rightarrow> None
      | c # r \<Rightarrow> if c = 0x30 then Some ([c], r) else lexDigits cs)"

definition lexFrac :: "jsstring \<Rightarrow> (jsstring \<times> jsstring) option" where
  "lexFrac cs =
     (case cs of
        [] \<Rightarrow> Some ([], cs)
      | c # r \<Rightarrow>
          if c = 0x2E then
            (case lexDigits r of None \<Rightarrow> None | Some (ds, r') \<Rightarrow> Some (c # ds, r'))
          else Some ([], cs))"

definition lexExp :: "jsstring \<Rightarrow> (jsstring \<times> jsstring) option" where
  "lexExp cs =
     (case cs of
        [] \<Rightarrow> Some ([], cs)
      | c # r \<Rightarrow>
          if c = 0x65 \<or> c = 0x45 then
            (case r of
               [] \<Rightarrow> None
             | s # r' \<Rightarrow>
                 if s = 0x2B \<or> s = 0x2D then
                   (case lexDigits r' of
                      None \<Rightarrow> None
                    | Some (ds, r'') \<Rightarrow> Some (c # s # ds, r''))
                 else
                   (case lexDigits r of
                      None \<Rightarrow> None
                    | Some (ds, r'') \<Rightarrow> Some (c # ds, r'')))
          else Some ([], cs))"

definition lexNumber :: "jsstring \<Rightarrow> (jsstring \<times> jsstring) option" where
  "lexNumber cs =
     (let (sign, r0) =
            (case cs of [] \<Rightarrow> ([], cs) | c # r \<Rightarrow> if c = 0x2D then ([c], r) else ([], cs))
      in case lexInt r0 of
           None \<Rightarrow> None
         | Some (i, r1) \<Rightarrow>
             (case lexFrac r1 of
                None \<Rightarrow> None
              | Some (f, r2) \<Rightarrow>
                  (case lexExp r2 of
                     None \<Rightarrow> None
                   | Some (e, r3) \<Rightarrow> Some (sign @ i @ f @ e, r3))))"

fun stripPrefix :: "jsstring \<Rightarrow> jsstring \<Rightarrow> jsstring option" where
  "stripPrefix [] cs = Some cs"
| "stripPrefix (p # ps) [] = None"
| "stripPrefix (p # ps) (c # cs) = (if p = c then stripPrefix ps cs else None)"

datatype token = TLBracket | TRBracket | TLBrace | TRBrace | TComma | TColon
  | TString jsstring | TNumber jsstring | TTrue | TFalse | TNull

definition isJSONWhiteSpace :: "code_unit \<Rightarrow> bool" where
  "isJSONWhiteSpace c \<longleftrightarrow> c = 0x09 \<or> c = 0x0A \<or> c = 0x0D \<or> c = 0x20"

definition consTok :: "token \<Rightarrow> token list option \<Rightarrow> token list option" where
  "consTok t r = (case r of None \<Rightarrow> None | Some ts \<Rightarrow> Some (t # ts))"

text \<open>Every lexical function leaves a rest that is shorter than its input.\<close>

lemma lexString_length: "lexString cs = Some (s, r) \<Longrightarrow> length r \<le> length cs"
  by (induction cs arbitrary: s r rule: lexString.induct)
     (fastforce simp: consFst_def split: if_splits list.splits option.splits)+

lemma lexDigits_length: "lexDigits cs = Some (ds, r) \<Longrightarrow> length r < length cs"
  unfolding lexDigits_def
  by (cases cs) (auto split: if_splits intro: le_imp_less_Suc length_dropWhile_le)

lemma stripPrefix_length: "stripPrefix p cs = Some r \<Longrightarrow> length r + length p = length cs"
  by (induction p cs rule: stripPrefix.induct) (auto split: if_splits)

lemma stripPrefix_js_length:
  "stripPrefix (js (a # as)) cs = Some r \<Longrightarrow> length r < length cs"
  by (drule stripPrefix_length) (simp add: js_def)

lemma lexInt_length: "lexInt cs = Some (ds, r) \<Longrightarrow> length r < length cs"
  unfolding lexInt_def by (auto split: list.splits if_splits dest: lexDigits_length)

lemma lexFrac_length: "lexFrac cs = Some (ds, r) \<Longrightarrow> length r \<le> length cs"
  unfolding lexFrac_def
  by (auto split: list.splits if_splits option.splits dest: lexDigits_length)

lemma lexExp_length: "lexExp cs = Some (ds, r) \<Longrightarrow> length r \<le> length cs"
  unfolding lexExp_def
  by (auto split: list.splits if_splits option.splits dest: lexDigits_length)

lemma lexNumber_length: "lexNumber cs = Some (n, r) \<Longrightarrow> length r < length cs"
  unfolding lexNumber_def Let_def
  by (auto split: list.splits if_splits option.splits prod.splits
           dest!: lexInt_length lexFrac_length lexExp_length)

function lex :: "jsstring \<Rightarrow> token list option" where
  "lex [] = Some []"
| "lex (c # cs) =
     (if isJSONWhiteSpace c then lex cs
      else if c = 0x5B then consTok TLBracket (lex cs)
      else if c = 0x5D then consTok TRBracket (lex cs)
      else if c = 0x7B then consTok TLBrace (lex cs)
      else if c = 0x7D then consTok TRBrace (lex cs)
      else if c = 0x2C then consTok TComma (lex cs)
      else if c = 0x3A then consTok TColon (lex cs)
      else if c = 0x22 then
        (case lexString cs of
           None \<Rightarrow> None
         | Some (s, r) \<Rightarrow> consTok (TString s) (lex r))
      else if c = 0x2D \<or> isDigit c then
        (case lexNumber (c # cs) of
           None \<Rightarrow> None
         | Some (n, r) \<Rightarrow> consTok (TNumber n) (lex r))
      else
        (case stripPrefix (js ''true'') (c # cs) of
           Some r \<Rightarrow> consTok TTrue (lex r)
         | None \<Rightarrow>
             (case stripPrefix (js ''false'') (c # cs) of
                Some r \<Rightarrow> consTok TFalse (lex r)
              | None \<Rightarrow>
                  (case stripPrefix (js ''null'') (c # cs) of
                     Some r \<Rightarrow> consTok TNull (lex r)
                   | None \<Rightarrow> None))))"
  by pat_completeness auto
termination
proof (relation "measure length")
  show "wf (measure length)" by simp
qed (auto dest!: lexString_length lexNumber_length stripPrefix_js_length)

subsection \<open>\<^verbatim>\<open>JSON.parse\<close>: the grammar\<close>

text \<open>
  A property is created as the language does it: a name that is already there keeps its
  place and takes the new value (of duplicate names the last value stands); a new name
  that is an array index (a canonical decimal numeral of at most \<open>2^32 - 2\<close>) goes
  before the names that are no index and before the larger indices; any other new name
  goes to the end.
\<close>

definition arrayIndex :: "jsstring \<Rightarrow> int option" where
  "arrayIndex k =
     (if k \<noteq> [] \<and> list_all isDigit k \<and> (k = [0x30] \<or> hd k \<noteq> 0x30) \<and>
         foldl (\<lambda>n c. 10 * n + uint (c - 0x30)) 0 k \<le> 4294967294
      then Some (foldl (\<lambda>n c. 10 * n + uint (c - 0x30)) 0 k)
      else None)"

definition keyPrecedes :: "jsstring \<Rightarrow> jsstring \<Rightarrow> bool" where
  "keyPrecedes k k' =
     (case arrayIndex k of
        None \<Rightarrow> False
      | Some i \<Rightarrow> (case arrayIndex k' of None \<Rightarrow> True | Some j \<Rightarrow> i < j))"

fun CreateDataProperty ::
  "(jsstring \<times> json) list \<Rightarrow> jsstring \<Rightarrow> json \<Rightarrow> (jsstring \<times> json) list" where
  "CreateDataProperty [] k v = [(k, v)]"
| "CreateDataProperty ((k', v') # ps) k v =
     (if k' = k then (k, v) # ps
      else if keyPrecedes k k' then (k, v) # (k', v') # ps
      else (k', v') # CreateDataProperty ps k v)"

text \<open>
  The grammar, by recursive descent over the tokens. \<open>parseElements\<close> reads the
  elements of an array after its opening bracket, \<open>parseMembers\<close> the members of an
  object after its opening brace, with the properties created so far.
\<close>

function (sequential) parseValue :: "token list \<Rightarrow> (json \<times> token list) option"
  and parseElements :: "token list \<Rightarrow> (json list \<times> token list) option"
  and parseMembers ::
    "(jsstring \<times> json) list \<Rightarrow> token list \<Rightarrow> ((jsstring \<times> json) list \<times> token list) option"
where
  "parseValue [] = None"
| "parseValue (TNull # ts) = Some (JNull, ts)"
| "parseValue (TTrue # ts) = Some (JBool True, ts)"
| "parseValue (TFalse # ts) = Some (JBool False, ts)"
| "parseValue (TNumber n # ts) = Some (JNumber n, ts)"
| "parseValue (TString s # ts) = Some (JString s, ts)"
| "parseValue (TLBracket # TRBracket # ts) = Some (JArray [], ts)"
| "parseValue (TLBracket # ts) =
     (case parseElements ts of
        None \<Rightarrow> None
      | Some (vs, r) \<Rightarrow> Some (JArray vs, r))"
| "parseValue (TLBrace # TRBrace # ts) = Some (JObject [], ts)"
| "parseValue (TLBrace # ts) =
     (case parseMembers [] ts of
        None \<Rightarrow> None
      | Some (ps, r) \<Rightarrow> Some (JObject ps, r))"
| "parseValue (t # ts) = None"
| "parseElements ts =
     (case parseValue ts of
        None \<Rightarrow> None
      | Some (v, r) \<Rightarrow>
          (case r of
             TComma # r' \<Rightarrow>
               (case parseElements r' of
                  None \<Rightarrow> None
                | Some (vs, r'') \<Rightarrow> Some (v # vs, r''))
           | TRBracket # r' \<Rightarrow> Some ([v], r')
           | _ \<Rightarrow> None))"
| "parseMembers obj (TString k # TColon # ts) =
     (case parseValue ts of
        None \<Rightarrow> None
      | Some (v, r) \<Rightarrow>
          (case r of
             TComma # r' \<Rightarrow> parseMembers (CreateDataProperty obj k v) r'
           | TRBrace # r' \<Rightarrow> Some (CreateDataProperty obj k v, r')
           | _ \<Rightarrow> None))"
| "parseMembers obj ts = None"
  by pat_completeness auto

lemma parse_length:
  "parseValue_parseElements_parseMembers_dom (Inl ts) \<Longrightarrow>
     parseValue ts = Some (v, r) \<Longrightarrow> length r < length ts"
  "parseValue_parseElements_parseMembers_dom (Inr (Inl ts)) \<Longrightarrow>
     parseElements ts = Some (vs, r) \<Longrightarrow> length r < length ts"
  "parseValue_parseElements_parseMembers_dom (Inr (Inr (obj, ts))) \<Longrightarrow>
     parseMembers obj ts = Some (ps, r) \<Longrightarrow> length r < length ts"
  apply (induction ts and ts and obj ts arbitrary: v r and vs r and ps r
         rule: parseValue_parseElements_parseMembers.pinduct)
  apply (simp_all add: parseValue.psimps parseElements.psimps parseMembers.psimps
           split: option.splits prod.splits)
  subgoal by (fastforce split: list.splits token.splits option.splits)
  subgoal by (fastforce split: list.splits token.splits option.splits)
  done

termination parseValue
proof (relation "measure (\<lambda>x. case x of
                            Inl ts \<Rightarrow> 2 * length ts
                          | Inr (Inl ts) \<Rightarrow> 2 * length ts + 1
                          | Inr (Inr (obj, ts)) \<Rightarrow> 2 * length ts + 1)")
qed (auto dest: parse_length)

text \<open>
  \<^verbatim>\<open>JSON.parse\<close> returns the value of a text that is one JSON value between optional
  white space; \<open>None\<close> stands for the \<^verbatim>\<open>SyntaxError\<close> it throws on any other text.
\<close>

definition JSON_parse :: "jsstring \<Rightarrow> json option" where
  "JSON_parse text =
     (case lex text of
        None \<Rightarrow> None
      | Some ts \<Rightarrow>
          (case parseValue ts of
             None \<Rightarrow> None
           | Some (v, r) \<Rightarrow> if r = [] then Some v else None))"

section \<open>Data model\<close>

text \<open>
  The interfaces of lines 5 to 27. \<open>UserPreferences\<close> and \<open>SavedRoadmap\<close> are
  records with the fields of the source (the field \<^verbatim>\<open>preferences\<close> of a saved roadmap
  is \<open>saved_preferences\<close> here, since the session state has a field of that name too).
  A roadmap is the array that \<^verbatim>\<open>JSON.parse\<close> returned: the type annotation
  \<^verbatim>\<open>RoadmapStep[]\<close> is erased when the program runs and nothing checks it, so the
  steps are JSON values, and \<open>isRoadmapStep\<close> says when such a value has the fields
  that the interface \<^verbatim>\<open>RoadmapStep\<close> declares.
\<close>

record UserPreferences =
  goal :: jsstring
  timeframe :: jsstring
  experience :: jsstring
  dedication :: jsstring

record SavedRoadmap =
  saved_preferences :: UserPreferences
  steps :: "json list"
  createdAt :: jsstring

definition hasString :: "(jsstring \<times> json) list \<Rightarrow> jsstring \<Rightarrow> bool" where
  "hasString ps k = (case map_of ps k of Some (JString s) \<Rightarrow> True | _ \<Rightarrow> False)"

definition isStringValue :: "json \<Rightarrow> bool" where
  "isStringValue v = (case v of JString s \<Rightarrow> True | _ \<Rightarrow> False)"

definition isResource :: "json \<Rightarrow> bool" where
  "isResource v =
     (case v of
        JObject ps \<Rightarrow> hasString ps (js ''title'') \<and> hasString ps (js ''url'')
      | _ \<Rightarrow> False)"

definition isRoadmapStep :: "json \<Rightarrow> bool" where
  "isRoadmapStep v =
     (case v of
        JObject ps \<Rightarrow>
          hasString ps (js ''title'') \<and>
          hasString ps (js ''description'') \<and>
          (case map_of ps (js ''resources'') of
             Some (JArray rs) \<Rightarrow> list_all isResource rs
           | _ \<Rightarrow> False) \<and>
          hasString ps (js ''timeframe'') \<and>
          (case map_of ps (js ''skills'') of
             Some (JArray ks) \<Rightarrow> list_all isStringValue ks
           | _ \<Rightarrow> False)
      | _ \<Rightarrow> False)"

text \<open>
  The objects that the program hands to \<^verbatim>\<open>JSON.stringify\<close>, with their properties in
  the order of the object literals of lines 32 to 37 and 81 to 85.
\<close>

definition UserPreferences_json :: "UserPreferences \<Rightarrow> json" where
  "UserPreferences_json p =
     JObject [(js ''goal'', JString (goal p)),
              (js ''timeframe'', JString (timeframe p)),
              (js ''experience'', JString (experience p)),
              (js ''dedication'', JString (dedication p))]"

definition SavedRoadmap_json :: "SavedRoadmap \<Rightarrow> json" where
  "SavedRoadmap_json e =
     JObject [(js ''preferences'', UserPreferences_json (saved_preferences e)),
              (js ''steps'', JArray (steps e)),
              (js ''createdAt'', JString (createdAt e))]"

section \<open>The session\<close>

text \<open>
  The state of the component \<^verbatim>\<open>App\<close>: its eight state variables (lines 30 to 49),
  the browser's \<^verbatim>\<open>localStorage\<close> (a store from string keys to string values, taken
  as unbounded) and the values written with \<^verbatim>\<open>console.error\<close>. A value that the
  program throws or catches is an \<open>exn\<close>.
\<close>

datatype exn = Error jsstring | SyntaxError | RemoteFailure

record state =
  preferences :: UserPreferences
  loading :: bool
  roadmap :: "json list"
  error :: jsstring
  apiKey :: jsstring
  showApiInput :: bool
  isDarkMode :: bool
  savedRoadmaps :: "SavedRoadmap list"
  localStorage :: "jsstring \<rightharpoonup> jsstring"
  console :: "exn list"

subsection \<open>The initial preferences (lines 30 to 38)\<close>

text \<open>
  \<^verbatim>\<open>saved ? JSON.parse(saved) : {...}\<close>: a missing key gives \<^verbatim>\<open>null\<close> and the
  empty string is falsy as well; a stored text that is no JSON makes \<^verbatim>\<open>JSON.parse\<close>
  throw. The parsed value becomes the preferences as it is.
\<close>

definition defaultPreferences :: UserPreferences where
  "defaultPreferences =
     \<lparr>goal = [], timeframe = js ''6 months'', experience = js ''beginner'',
      dedication = js ''10 hours/week''\<rparr>"

definition initPreferences :: "(jsstring \<rightharpoonup> jsstring) \<Rightarrow> exn + json" where
  "initPreferences storage =
     (case storage (js ''lastPreferences'') of
        None \<Rightarrow> Inr (UserPreferences_json defaultPreferences)
      | Some saved \<Rightarrow>
          if saved = [] then Inr (UserPreferences_json defaultPreferences)
          else (case JSON_parse saved of
                  None \<Rightarrow> Inl SyntaxError
                | Some v \<Rightarrow> Inr v))"

subsection \<open>\<^verbatim>\<open>generatePrompt\<close> (lines 63 to 76)\<close>

definition generatePrompt :: "UserPreferences \<Rightarrow> jsstring" where
  "generatePrompt prefs =
     js ''Create a detailed learning roadmap for someone who wants to '' @ goal prefs
       @ js ''. '' @ [0x0A] @
     js ''    They have '' @ experience prefs
       @ js '' experience level and can dedicate '' @ dedication prefs
       @ js '' to learning. '' @ [0x0A] @
     js ''    They want to achieve their goal in '' @ timeframe prefs @ js ''.'' @ [0x0A] @
     js ''    '' @ [0x0A] @
     js ''    Format the response as a JSON array with exactly 3-4 steps. Each step should have:''
       @ [0x0A] @
     js ''    - title: short name for the phase'' @ [0x0A] @
     js ''    - description: detailed explanation'' @ [0x0A] @
     js ''    - resources: array of objects with {title: string, url: string} for specific learning resources with real, working URLs''
       @ [0x0A] @
     js ''    - timeframe: estimated time for this step'' @ [0x0A] @
     js ''    - skills: array of key skills to master'' @ [0x0A] @
     js ''    '' @ [0x0A] @
     js ''    Make it realistic and actionable within their timeframe. Ensure all resource URLs are real and accessible.''"

subsection \<open>\<^verbatim>\<open>saveRoadmap\<close> (lines 78 to 90) and \<^verbatim>\<open>loadRoadmap\<close> (lines 92 to 95)\<close>

text \<open>
  The argument \<open>now\<close> is the value of \<^verbatim>\<open>new Date().toISOString()\<close> at the call.
\<close>

definition saveRoadmap :: "jsstring \<Rightarrow> state \<Rightarrow> state" where
  "saveRoadmap now s =
     (if length (roadmap s) = 0 then s
      else
        let newSavedRoadmap =
              \<lparr>saved_preferences = preferences s, steps = roadmap s, createdAt = now\<rparr>;
            updatedRoadmaps = savedRoadmaps s @ [newSavedRoadmap]
        in s\<lparr>savedRoadmaps := updatedRoadmaps,
             localStorage := (localStorage s)
               (js ''savedRoadmaps'' \<mapsto>
                  JSON_stringify (JArray (map SavedRoadmap_json updatedRoadmaps)))\<rparr>)"

definition loadRoadmap :: "SavedRoadmap \<Rightarrow> state \<Rightarrow> state" where
  "loadRoadmap saved s = s\<lparr>preferences := saved_preferences saved, roadmap := steps saved\<rparr>"

subsection \<open>\<^verbatim>\<open>generateRoadmap\<close> (lines 97 to 137)\<close>

text \<open>
  The function is asynchronous. It runs from its call to the first \<^verbatim>\<open>await\<close>
  (\<open>generateRoadmap_begin\<close>): there it has either returned after a failed check, or it
  has sent the prompt to the remote model, with the state it leaves while it waits.
  It runs again when the remote call has ended (\<open>generateRoadmap_resume\<close>), with the
  preferences and the key of the call, which the closure has kept. The remote call
  ends with the text of the response or with an exception; the constructors of lines
  112 and 113 send nothing. No time limit is set on the remote call: while it has not
  ended, the session stays in the state of \<open>Await\<close>, with the busy flag set.
\<close>

datatype outcome = Return state | Await jsstring jsstring state

definition generateRoadmap_begin :: "state \<Rightarrow> outcome" where
  "generateRoadmap_begin s =
     (if trim (apiKey s) = [] then
        Return (s\<lparr>error := js ''Please enter your Gemini API key''\<rparr>)
      else if trim (goal (preferences s)) = [] then
        Return (s\<lparr>error := js ''Please enter your learning goal''\<rparr>)
      else
        Await (apiKey s) (generatePrompt (preferences s))
              (s\<lparr>error := [], loading := True\<rparr>))"

text \<open>
  Lines 116 to 125, the part of the \<^verbatim>\<open>try\<close> block that can throw: the awaited
  response, the match and \<^verbatim>\<open>JSON.parse\<close>. The matched text begins with a bracket,
  and such a text is parsed to an array or not at all (lemma \<open>JSON_parse_bracket\<close>
  below), so the last case stands for no text.
\<close>

definition parsedRoadmap :: "exn + jsstring \<Rightarrow> exn + json list" where
  "parsedRoadmap response =
     (case response of
        Inl e \<Rightarrow> Inl e
      | Inr text \<Rightarrow>
          (case matchBracketed text of
             None \<Rightarrow> Inl (Error (js ''Invalid response format''))
           | Some jsonMatch \<Rightarrow>
               (case JSON_parse jsonMatch of
                  None \<Rightarrow> Inl SyntaxError
                | Some (JArray vs) \<Rightarrow> Inr vs
                | Some v \<Rightarrow> Inl SyntaxError)))"

definition generateRoadmap_resume ::
  "UserPreferences \<Rightarrow> jsstring \<Rightarrow> exn + jsstring \<Rightarrow> state \<Rightarrow> state" where
  "generateRoadmap_resume prefs key response s =
     (case parsedRoadmap response of
        Inr vs \<Rightarrow>
          s\<lparr>roadmap := vs,
            localStorage := (localStorage s)
              (js ''lastPreferences'' \<mapsto> JSON_stringify (UserPreferences_json prefs),
               js ''geminiApiKey'' \<mapsto> key),
            loading := False\<rparr>
      | Inl err \<Rightarrow>
          s\<lparr>error := js ''Failed to generate roadmap. Please check your API key and try again.'',
            console := console s @ [err],
            loading := False\<rparr>)"

text \<open>
  The whole call, for a remote model \<open>remote\<close> that answers a key and a prompt.
\<close>

definition generateRoadmap :: "(jsstring \<Rightarrow> jsstring \<Rightarrow> exn + jsstring) \<Rightarrow> state \<Rightarrow> state" where
  "generateRoadmap remote s =
     (case generateRoadmap_begin s of
        Return s' \<Rightarrow> s'
      | Await key prompt s' \<Rightarrow>
          generateRoadmap_resume (preferences s) (apiKey s) (remote key prompt) s')"

section \<open>Vocabulary of the properties\<close>

text \<open>
  A text is a roadmap text when \<^verbatim>\<open>JSON.parse\<close> reads it as an array whose elements
  all are roadmap steps. \<open>bracketedSubstrings\<close> lists the substrings of a text that
  begin with \<^verbatim>\<open>[\<close> and end with \<^verbatim>\<open>]\<close>, one for each pair of positions, and
  \<open>roadmapTexts\<close> keeps those that are roadmap texts: a response contains exactly one
  well-formed array of valid steps when this list has one element.
\<close>

definition isRoadmapText :: "jsstring \<Rightarrow> bool" where
  "isRoadmapText a =
     (case JSON_parse a of Some (JArray vs) \<Rightarrow> list_all isRoadmapStep vs | _ \<Rightarrow> False)"

fun closingPrefixes :: "jsstring \<Rightarrow> jsstring list" where
  "closingPrefixes [] = []"
| "closingPrefixes (c # cs) =
     (if c = 0x5D then [[c]] else []) @ map (Cons c) (closingPrefixes cs)"

fun bracketedSubstrings :: "jsstring \<Rightarrow> jsstring list" where
  "bracketedSubstrings [] = []"
| "bracketedSubstrings (c # cs) =
     (if c = 0x5B then map (Cons c) (closingPrefixes cs) else []) @ bracketedSubstrings cs"

definition roadmapTexts :: "jsstring \<Rightarrow> jsstring list" where
  "roadmapTexts t = filter isRoadmapText (bracketedSubstrings t)"

text \<open>A remote model that gives the same answer to every prompt.\<close>

definition constRemote :: "exn + jsstring \<Rightarrow> jsstring \<Rightarrow> jsstring \<Rightarrow> exn + jsstring" where
  "constRemote answer key prompt = answer"

subsection \<open>A sample session\<close>

text \<open>Concrete values on which the theorems below are instantiated.\<close>

definition sampleStep :: json where
  "sampleStep =
     JObject [(js ''title'', JString (js ''Basics'')),
              (js ''description'', JString (js ''Read'')),
              (js ''resources'',
                 JArray [JObject [(js ''title'', JString (js ''Book'')),
                                  (js ''url'', JString (js ''https://a.io''))]]),
              (js ''timeframe'', JString (js ''4 weeks'')),
              (js ''skills'', JArray [JString (js ''types'')])]"

definition samplePreferences :: UserPreferences where
  "samplePreferences =
     \<lparr>goal = js ''learn Rust'', timeframe = js ''3 months'',
      experience = js ''intermediate'', dedication = js ''5 hours/week''\<rparr>"

definition sampleSaved :: SavedRoadmap where
  "sampleSaved =
     \<lparr>saved_preferences = defaultPreferences\<lparr>goal := js ''learn Go''\<rparr>,
      steps = [JNull], createdAt = js ''2025-01-01T00:00:00.000Z''\<rparr>"

definition sampleState :: state where
  "sampleState =
     \<lparr>preferences = samplePreferences, loading = False, roadmap = [sampleStep],
      error = js ''old message'', apiKey = js ''secret'', showApiInput = False,
      isDarkMode = True, savedRoadmaps = [sampleSaved],
      localStorage = [js ''geminiApiKey'' \<mapsto> js ''secret''], console = []\<rparr>"

definition sampleNow :: jsstring where
  "sampleNow = js ''2025-06-01T12:00:00.000Z''"

text \<open>A session in which nothing has been generated or saved yet.\<close>

definition freshState :: state where
  "freshState =
     \<lparr>preferences = samplePreferences, loading = False, roadmap = [],
      error = js ''old message'', apiKey = js ''secret'', showApiInput = False,
      isDarkMode = False, savedRoadmaps = [], localStorage = Map.empty, console = []\<rparr>"

text \<open>Responses of the remote model.\<close>

definition roadmapText :: jsstring where
  "roadmapText = js ''[{\"title\":\"Basics\",\"description\":\"Read\",\"resources\":[{\"title\":\"Book\",\"url\":\"https://a.io\"}],\"timeframe\":\"4 weeks\",\"skills\":[\"types\"]}]''"

definition proseResponse :: jsstring where
  "proseResponse = js ''Here is your plan: '' @ roadmapText @ js '' Good luck!''"

definition strayBracketResponse :: jsstring where
  "strayBracketResponse = js ''Plan [draft]: '' @ roadmapText"

definition shapelessResponse :: jsstring where
  "shapelessResponse = js ''Here you go: [{\"title\":\"Basics\",\"resources\":[],\"skills\":[]}]''"

definition shapelessValue :: "json list" where
  "shapelessValue =
     [JObject [(js ''title'', JString (js ''Basics'')),
               (js ''resources'', JArray []),
               (js ''skills'', JArray [])]]"

text \<open>A key of white space only: a space, an ideographic space and a line feed.\<close>

definition blankKey :: jsstring where
  "blankKey = [0x20, 0x3000, 0x0A]"

definition refusalResponse :: jsstring where
  "refusalResponse = js ''Sorry, I cannot help with that.''"

section \<open>Lemmas\<close>

subsection \<open>Trimming and matching\<close>

lemma trim_empty_iff: "trim s = [] \<longleftrightarrow> (\<forall>c \<in> set s. isTrimWhiteSpace c)"
proof
  assume "trim s = []"
  then have "dropWhile isTrimWhiteSpace (rev (dropWhile isTrimWhiteSpace s)) = []"
    by (simp add: trim_def)
  then have "\<forall>c \<in> set (dropWhile isTrimWhiteSpace s). isTrimWhiteSpace c"
    by (simp add: dropWhile_eq_Nil_conv)
  then have "dropWhile isTrimWhiteSpace s = []"
    by (metis hd_dropWhile list.set_sel(1))
  then show "\<forall>c \<in> set s. isTrimWhiteSpace c"
    by (simp add: dropWhile_eq_Nil_conv)
next
  assume "\<forall>c \<in> set s. isTrimWhiteSpace c"
  then have "dropWhile isTrimWhiteSpace s = []" by (induction s) auto
  then show "trim s = []" by (simp add: trim_def del: dropWhile_eq_Nil_conv)
qed

lemma matchStarBracket_None: "matchStarBracket cs = None \<longleftrightarrow> 0x5D \<notin> set cs"
  by (induction cs) (auto split: option.splits)

lemma matchStarBracket_last:
  "0x5D \<notin> set post \<Longrightarrow> matchStarBracket (xs @ 0x5D # post) = Some (xs @ [0x5D])"
proof (induction xs)
  case Nil
  then have "matchStarBracket post = None" by (simp add: matchStarBracket_None)
  then show ?case by simp
next
  case (Cons x xs)
  then show ?case by simp
qed

lemma matchBracketed_skip:
  "0x5B \<notin> set pre \<Longrightarrow> matchBracketed (pre @ cs) = matchBracketed cs"
  by (induction pre) (auto simp: matchHere_def)

lemma matchBracketed_array:
  assumes "0x5B \<notin> set pre" "0x5D \<notin> set post"
  shows "matchBracketed (pre @ (0x5B # mid @ [0x5D]) @ post) = Some (0x5B # mid @ [0x5D])"
  using assms matchStarBracket_last [of post mid]
  by (simp add: matchBracketed_skip matchHere_def)

lemma matchBracketed_None_iff:
  "matchBracketed text = None \<longleftrightarrow>
     \<not> (\<exists>pre mid post. text = pre @ [0x5B] @ mid @ [0x5D] @ post)"
proof (induction "text")
  case Nil
  show ?case by simp
next
  case (Cons c cs)
  show ?case
  proof
    assume n: "matchBracketed (c # cs) = None"
    show "\<not> (\<exists>pre mid post. c # cs = pre @ [0x5B] @ mid @ [0x5D] @ post)"
    proof
      assume "\<exists>pre mid post. c # cs = pre @ [0x5B] @ mid @ [0x5D] @ post"
      then obtain pre mid post where e: "c # cs = pre @ [0x5B] @ mid @ [0x5D] @ post" by blast
      show False
      proof (cases pre)
        case Nil
        with e have "c = 0x5B" "cs = mid @ 0x5D # post" by auto
        then have "matchHere (c # cs) \<noteq> None"
          by (auto simp: matchHere_def matchStarBracket_None split: option.splits)
        with n show False by (auto split: option.splits)
      next
        case (Cons p pre')
        with e have "cs = pre' @ [0x5B] @ mid @ [0x5D] @ post" by simp
        with Cons.IH have "matchBracketed cs \<noteq> None" by blast
        with n show False by (auto split: option.splits)
      qed
    qed
  next
    assume a: "\<not> (\<exists>pre mid post. c # cs = pre @ [0x5B] @ mid @ [0x5D] @ post)"
    have "matchHere (c # cs) = None"
    proof (rule ccontr)
      assume "matchHere (c # cs) \<noteq> None"
      then have c: "c = 0x5B" and "matchStarBracket cs \<noteq> None"
        by (auto simp: matchHere_def split: if_splits option.splits)
      then have "0x5D \<in> set cs" by (simp add: matchStarBracket_None)
      then obtain mid post where "cs = mid @ 0x5D # post" by (auto dest: split_list)
      with c have "c # cs = [] @ [0x5B] @ mid @ [0x5D] @ post" by simp
      with a show False by blast
    qed
    moreover have "matchBracketed cs = None"
    proof -
      have "\<not> (\<exists>pre mid post. cs = pre @ [0x5B] @ mid @ [0x5D] @ post)"
      proof
        assume "\<exists>pre mid post. cs = pre @ [0x5B] @ mid @ [0x5D] @ post"
        then obtain pre mid post where "cs = pre @ [0x5B] @ mid @ [0x5D] @ post" by blast
        then have "c # cs = (c # pre) @ [0x5B] @ mid @ [0x5D] @ post" by simp
        with a show False by blast
      qed
      with Cons.IH show ?thesis by simp
    qed
    ultimately show "matchBracketed (c # cs) = None" by simp
  qed
qed

lemma matchHere_bracket: "matchHere cs = Some m \<Longrightarrow> \<exists>r. m = 0x5B # r"
  by (auto simp: matchHere_def split: list.splits if_splits option.splits)

lemma matchBracketed_bracket: "matchBracketed text = Some m \<Longrightarrow> \<exists>r. m = 0x5B # r"
  by (induction "text") (auto split: option.splits dest: matchHere_bracket)

subsection \<open>A text that begins with a bracket is parsed to an array\<close>

lemma parseValue_bracket: "parseValue (TLBracket # ts) = Some (v, r) \<Longrightarrow> \<exists>vs. v = JArray vs"
  by (cases "TLBracket # ts" rule: parseValue.cases) (auto split: option.splits)

lemma JSON_parse_bracket: "JSON_parse (0x5B # cs) = Some v \<Longrightarrow> \<exists>vs. v = JArray vs"
  by (auto simp: JSON_parse_def isJSONWhiteSpace_def consTok_def
           split: option.splits if_splits dest: parseValue_bracket)

lemma parsedRoadmap_array:
  "matchBracketed t = Some m \<Longrightarrow> JSON_parse m = Some v \<Longrightarrow>
   \<exists>vs. v = JArray vs \<and> parsedRoadmap (Inr t) = Inr vs"
proof -
  assume m: "matchBracketed t = Some m" and p: "JSON_parse m = Some v"
  from m obtain r where "m = 0x5B # r" by (auto dest: matchBracketed_bracket)
  with p obtain vs where "v = JArray vs" by (auto dest: JSON_parse_bracket)
  with m p show ?thesis by (simp add: parsedRoadmap_def)
qed

subsection \<open>A quoted string is read back as it was\<close>

lemma hexValue_hexDigit: "n < 16 \<Longrightarrow> hexValue (hexDigit n) = Some n"
  unfolding hexValue_def hexDigit_def
  by (auto simp: word_less_nat_alt word_le_nat_alt unat_word_ariths unat_sub_if' split: if_splits)

lemma nibble_and: "(x::code_unit) AND 0xF < 16"
proof -
  have "x AND 0xF \<le> 0xF" by (rule word_and_le1)
  also have "(0xF::code_unit) < 16" by simp
  finally show ?thesis .
qed

lemma nibble_top: "drop_bit 12 (c::code_unit) < 16"
proof -
  have "unat c < 2 ^ 16" using unsigned_less [of c, where 'a = nat] by simp
  then have "unat c div 2 ^ 12 < 16" by simp
  moreover have "unat (drop_bit 12 c) = drop_bit 12 (unat c)" by (rule unat_drop_bit_eq)
  moreover have "drop_bit 12 (unat c) = unat c div 2 ^ 12" by (rule drop_bit_eq_div)
  ultimately show ?thesis by (simp add: word_less_nat_alt)
qed

lemma nibbles_recompose:
  "push_bit 12 (drop_bit 12 c) OR push_bit 8 (drop_bit 8 c AND 0xF)
     OR push_bit 4 (drop_bit 4 c AND 0xF) OR (c AND 0xF) = (c::code_unit)"
proof -
  have m: "(0xF::code_unit) = mask 4" by (simp add: mask_eq_exp_minus_1)
  show ?thesis
    unfolding m
    apply (rule bit_word_eqI)
    apply (auto simp: bit_simps)
    subgoal for n by (cases "8 \<le> n") auto
    subgoal for n by (cases "8 \<le> n") auto
    done
qed

lemma hex4_hexDigits:
  "hex4 (hexDigit (drop_bit 12 c)) (hexDigit (drop_bit 8 c AND 0xF))
        (hexDigit (drop_bit 4 c AND 0xF)) (hexDigit (c AND 0xF)) = Some c"
  unfolding hex4_def
  by (simp only: hexValue_hexDigit nibble_top nibble_and nibbles_recompose prod.case option.case)

lemma lexString_UnicodeEscape:
  "lexString (UnicodeEscape c @ rest) = consFst c (lexString rest)"
  by (simp add: UnicodeEscape_def hex4_hexDigits del: push_bit_and)

lemma surrogate_plain:
  "isLeadSurrogate c \<or> isTrailSurrogate c \<Longrightarrow> \<not> c < 0x20 \<and> c \<noteq> 0x22 \<and> c \<noteq> 0x5C"
  by (auto simp: isLeadSurrogate_def isTrailSurrogate_def word_le_nat_alt word_less_nat_alt)

lemma lexString_QuoteUnit:
  "lexString (QuoteUnit c @ rest) = consFst c (lexString rest)"
  unfolding QuoteUnit_def
  by (auto simp: lexString_UnicodeEscape unescape_def)

lemma lexString_pair:
  "isLeadSurrogate c \<Longrightarrow> isTrailSurrogate d \<Longrightarrow>
   lexString (c # d # rest) = consFst c (consFst d (lexString rest))"
  using surrogate_plain [of c] surrogate_plain [of d] by simp

lemma lexString_QuoteBody:
  "lexString (QuoteBody s @ 0x22 # rest) = Some (s, rest)"
proof (induction s rule: QuoteBody.induct)
  case 1
  show ?case by simp
next
  case (2 c)
  show ?case by (simp add: lexString_QuoteUnit consFst_def)
next
  case (3 c d ds)
  show ?case
  proof (cases "isLeadSurrogate c \<and> isTrailSurrogate d")
    case True
    with 3 show ?thesis by (simp add: lexString_pair consFst_def del: lexString.simps)
  next
    case False
    then have "QuoteBody (c # d # ds) = QuoteUnit c @ QuoteBody (d # ds)" by auto
    with 3 False show ?thesis
      by (simp add: lexString_QuoteUnit consFst_def del: lexString.simps QuoteBody.simps)
  qed
qed

lemma lex_QuoteJSONString:
  "lex (QuoteJSONString s @ rest) = consTok (TString s) (lex rest)"
  by (simp add: QuoteJSONString_def isJSONWhiteSpace_def lexString_QuoteBody)

subsection \<open>The stored preferences are read back as they were\<close>

lemma preference_keys:
  "arrayIndex (js ''goal'') = None" "arrayIndex (js ''timeframe'') = None"
  "arrayIndex (js ''experience'') = None" "arrayIndex (js ''dedication'') = None"
  "js ''goal'' \<noteq> js ''timeframe''" "js ''goal'' \<noteq> js ''experience''"
  "js ''goal'' \<noteq> js ''dedication''" "js ''timeframe'' \<noteq> js ''experience''"
  "js ''timeframe'' \<noteq> js ''dedication''" "js ''experience'' \<noteq> js ''dedication''"
  by (simp_all add: arrayIndex_def js_def isDigit_def)

lemma lex_UserPreferences:
  "lex (JSON_stringify (UserPreferences_json p)) =
     Some [TLBrace, TString (js ''goal''), TColon, TString (goal p), TComma,
           TString (js ''timeframe''), TColon, TString (timeframe p), TComma,
           TString (js ''experience''), TColon, TString (experience p), TComma,
           TString (js ''dedication''), TColon, TString (dedication p), TRBrace]"
  by (simp add: UserPreferences_json_def lex_QuoteJSONString isJSONWhiteSpace_def consTok_def)

lemma parse_UserPreferences:
  "JSON_parse (JSON_stringify (UserPreferences_json p)) = Some (UserPreferences_json p)"
  unfolding JSON_parse_def lex_UserPreferences
  by (simp add: UserPreferences_json_def keyPrecedes_def preference_keys)

lemma stringify_nonempty: "JSON_stringify (UserPreferences_json p) \<noteq> []"
  by (simp add: UserPreferences_json_def)

lemma UserPreferences_json_inj: "UserPreferences_json p = UserPreferences_json q \<Longrightarrow> p = q"
  by (cases p, cases q) (simp add: UserPreferences_json_def)

subsection \<open>The steps of the call and the sample values\<close>

lemma js_keys_distinct:
  "js ''lastPreferences'' \<noteq> js ''geminiApiKey''"
  "js ''lastPreferences'' \<noteq> js ''savedRoadmaps''"
  "js ''geminiApiKey'' \<noteq> js ''savedRoadmaps''"
  by (simp_all add: js_def)

lemma generateRoadmap_begin_Await:
  "trim (apiKey s) \<noteq> [] \<Longrightarrow> trim (goal (preferences s)) \<noteq> [] \<Longrightarrow>
   generateRoadmap_begin s =
     Await (apiKey s) (generatePrompt (preferences s)) (s\<lparr>error := [], loading := True\<rparr>)"
  by (simp add: generateRoadmap_begin_def)

lemma sample_valid:
  "trim (apiKey freshState) \<noteq> []" "trim (goal (preferences freshState)) \<noteq> []"
  by (simp_all add: trim_empty_iff freshState_def samplePreferences_def js_def isTrimWhiteSpace_def)

lemma roadmapText_match: "matchBracketed roadmapText = Some roadmapText"
  by code_simp

lemma roadmapText_parse: "JSON_parse roadmapText = Some (JArray [sampleStep])"
  by code_simp

lemma sampleStep_valid: "list_all isRoadmapStep [sampleStep]"
  by code_simp

lemma shapeless_match:
  "matchBracketed shapelessResponse = Some (js ''[{\"title\":\"Basics\",\"resources\":[],\"skills\":[]}]'')"
  by code_simp

lemma shapeless_parse:
  "JSON_parse (js ''[{\"title\":\"Basics\",\"resources\":[],\"skills\":[]}]'') = Some (JArray shapelessValue)"
  by code_simp

lemma shapeless_invalid: "\<not> list_all isRoadmapStep shapelessValue"
  by code_simp

lemma stray_texts: "roadmapTexts strayBracketResponse = [roadmapText]"
  by code_simp

lemma stray_match:
  "matchBracketed strayBracketResponse = Some (js ''[draft]: '' @ roadmapText)"
  by code_simp

lemma stray_parse: "JSON_parse (js ''[draft]: '' @ roadmapText) = None"
  by code_simp

lemma samplePreferences_text:
  "JSON_stringify (UserPreferences_json samplePreferences) =
     js ''{\"goal\":\"learn Rust\",\"timeframe\":\"3 months\",\"experience\":\"intermediate\",\"dedication\":\"5 hours/week\"}''"
  by code_simp


section \<open>Generating a roadmap\<close>

text \<open>
  C1, as stated: when the bracketed substring is valid JSON whose value has not the
  shape of a roadmap, the call fails with a parse error and that value is not the
  roadmap. The program makes no such check. For the response
  \<^verbatim>\<open>Here you go: [{"title":"Basics","resources":[],"skills":[]}]\<close> the match is
  valid JSON, its one element has neither a description nor a time frame and so is no
  roadmap step, and the call ends without any message and with exactly this element
  as the current roadmap.
\<close>

theorem generateRoadmap_shape_counterexample:
  "matchBracketed shapelessResponse = Some (js ''[{\"title\":\"Basics\",\"resources\":[],\"skills\":[]}]'')
   \<and> JSON_parse (js ''[{\"title\":\"Basics\",\"resources\":[],\"skills\":[]}]'') = Some (JArray shapelessValue)
   \<and> \<not> list_all isRoadmapStep shapelessValue
   \<and> parsedRoadmap (Inr shapelessResponse) = Inr shapelessValue
   \<and> roadmap (generateRoadmap (constRemote (Inr shapelessResponse)) freshState) = shapelessValue
   \<and> error (generateRoadmap (constRemote (Inr shapelessResponse)) freshState) = []
   \<and> console (generateRoadmap (constRemote (Inr shapelessResponse)) freshState) = []"
proof -
  have p: "parsedRoadmap (Inr shapelessResponse) = Inr shapelessValue"
    by (simp add: parsedRoadmap_def shapeless_match shapeless_parse shapelessValue_def)
  then have "roadmap (generateRoadmap (constRemote (Inr shapelessResponse)) freshState) = shapelessValue
    \<and> error (generateRoadmap (constRemote (Inr shapelessResponse)) freshState) = []
    \<and> console (generateRoadmap (constRemote (Inr shapelessResponse)) freshState) = []"
    using sample_valid
    by (simp add: generateRoadmap_def generateRoadmap_begin_Await generateRoadmap_resume_def
                  constRemote_def freshState_def)
  with p shapeless_match shapeless_parse shapeless_invalid show ?thesis by blast
qed

text \<open>
  C1, amended: whenever the checks of the key and the goal pass and the bracketed
  substring of the response is valid JSON, the call succeeds: the parsed value is an
  array, it becomes the current roadmap as it is, whatever the shape of its elements,
  no message is set, nothing is written to the console and the session is idle again.
\<close>

theorem generateRoadmap_unvalidated:
  assumes "trim (apiKey s) \<noteq> []" and "trim (goal (preferences s)) \<noteq> []"
    and "remote (apiKey s) (generatePrompt (preferences s)) = Inr response"
    and "matchBracketed response = Some jsonMatch"
    and "JSON_parse jsonMatch = Some v"
  shows "\<exists>vs. v = JArray vs
           \<and> parsedRoadmap (Inr response) = Inr vs
           \<and> roadmap (generateRoadmap remote s) = vs
           \<and> error (generateRoadmap remote s) = []
           \<and> loading (generateRoadmap remote s) = False
           \<and> console (generateRoadmap remote s) = console s"
proof -
  from parsedRoadmap_array [OF assms(4,5)]
  obtain vs where v: "v = JArray vs" and p: "parsedRoadmap (Inr response) = Inr vs" by blast
  from p assms(1-3)
  have "roadmap (generateRoadmap remote s) = vs
        \<and> error (generateRoadmap remote s) = []
        \<and> loading (generateRoadmap remote s) = False
        \<and> console (generateRoadmap remote s) = console s"
    by (simp add: generateRoadmap_def generateRoadmap_begin_Await generateRoadmap_resume_def)
  with v p show ?thesis by blast
qed

theorem generateRoadmap_unvalidated_witness:
  "trim (apiKey freshState) \<noteq> [] \<and> trim (goal (preferences freshState)) \<noteq> []
   \<and> matchBracketed shapelessResponse = Some (js ''[{\"title\":\"Basics\",\"resources\":[],\"skills\":[]}]'')
   \<and> JSON_parse (js ''[{\"title\":\"Basics\",\"resources\":[],\"skills\":[]}]'') = Some (JArray shapelessValue)
   \<and> roadmap (generateRoadmap (constRemote (Inr shapelessResponse)) freshState) = shapelessValue
   \<and> error (generateRoadmap (constRemote (Inr shapelessResponse)) freshState) = []"
proof -
  have r: "constRemote (Inr shapelessResponse) (apiKey freshState)
             (generatePrompt (preferences freshState)) = Inr shapelessResponse"
    by (simp add: constRemote_def)
  from generateRoadmap_unvalidated
         [where s = freshState and remote = "constRemote (Inr shapelessResponse)",
          OF sample_valid r shapeless_match shapeless_parse]
  have "roadmap (generateRoadmap (constRemote (Inr shapelessResponse)) freshState) = shapelessValue
        \<and> error (generateRoadmap (constRemote (Inr shapelessResponse)) freshState) = []"
    by auto
  with sample_valid shapeless_match shapeless_parse show ?thesis by blast
qed

text \<open>
  C2, as stated: a response that contains exactly one well-formed array of valid steps
  gives that array as the roadmap. The match of line 120 runs from the first \<^verbatim>\<open>[\<close>
  of the response to its last \<^verbatim>\<open>]\<close>, so a bracket in the prose around the array
  changes what is parsed. The response \<^verbatim>\<open>Plan [draft]: \<close> followed by a one-step
  roadmap contains exactly one roadmap text, yet the match begins at \<^verbatim>\<open>[draft]\<close>,
  is no JSON, and the call fails and leaves the roadmap empty.
\<close>

theorem generateRoadmap_single_array_counterexample:
  "roadmapTexts strayBracketResponse = [roadmapText]
   \<and> JSON_parse roadmapText = Some (JArray [sampleStep])
   \<and> list_all isRoadmapStep [sampleStep]
   \<and> matchBracketed strayBracketResponse = Some (js ''[draft]: '' @ roadmapText)
   \<and> parsedRoadmap (Inr strayBracketResponse) = Inl SyntaxError
   \<and> roadmap (generateRoadmap (constRemote (Inr strayBracketResponse)) freshState) = []
   \<and> error (generateRoadmap (constRemote (Inr strayBracketResponse)) freshState) =
       js ''Failed to generate roadmap. Please check your API key and try again.''"
proof -
  have p: "parsedRoadmap (Inr strayBracketResponse) = Inl SyntaxError"
    by (simp add: parsedRoadmap_def stray_match stray_parse)
  then have "roadmap (generateRoadmap (constRemote (Inr strayBracketResponse)) freshState) = []
   \<and> error (generateRoadmap (constRemote (Inr strayBracketResponse)) freshState) =
       js ''Failed to generate roadmap. Please check your API key and try again.''"
    using sample_valid
    by (simp add: generateRoadmap_def generateRoadmap_begin_Await generateRoadmap_resume_def
                  constRemote_def freshState_def)
  with p stray_texts stray_match roadmapText_parse sampleStep_valid show ?thesis by blast
qed

text \<open>
  C2, amended: when the response is a well-formed array of valid steps, from its
  opening to its closing bracket, with no \<^verbatim>\<open>[\<close> in the text before it and no
  \<^verbatim>\<open>]\<close> in the text after it, and the checks of the key and the goal pass, the call
  succeeds and the current roadmap is the parsed content of that array.
\<close>

theorem generateRoadmap_single_array:
  assumes "trim (apiKey s) \<noteq> []" and "trim (goal (preferences s)) \<noteq> []"
    and "remote (apiKey s) (generatePrompt (preferences s)) = Inr (pre @ a @ post)"
    and "0x5B \<notin> set pre" and "0x5D \<notin> set post"
    and "a = 0x5B # mid @ [0x5D]"
    and "JSON_parse a = Some (JArray vs)"
    and "list_all isRoadmapStep vs"
  shows "parsedRoadmap (Inr (pre @ a @ post)) = Inr vs
         \<and> roadmap (generateRoadmap remote s) = vs
         \<and> error (generateRoadmap remote s) = []
         \<and> loading (generateRoadmap remote s) = False"
proof -
  from assms(4-6) have "matchBracketed (pre @ a @ post) = Some a"
    using matchBracketed_array [of pre post mid] by simp
  with assms(7) have p: "parsedRoadmap (Inr (pre @ a @ post)) = Inr vs"
    by (simp add: parsedRoadmap_def)
  with assms(1-3) show ?thesis
    by (simp add: generateRoadmap_def generateRoadmap_begin_Await generateRoadmap_resume_def)
qed

theorem generateRoadmap_single_array_witness:
  "trim (apiKey freshState) \<noteq> [] \<and> trim (goal (preferences freshState)) \<noteq> []
   \<and> 0x5B \<notin> set (js ''Here is your plan: '') \<and> 0x5D \<notin> set (js '' Good luck!'')
   \<and> roadmapText = 0x5B # butlast (tl roadmapText) @ [0x5D]
   \<and> JSON_parse roadmapText = Some (JArray [sampleStep])
   \<and> list_all isRoadmapStep [sampleStep]
   \<and> roadmap (generateRoadmap (constRemote (Inr proseResponse)) freshState) = [sampleStep]
   \<and> error (generateRoadmap (constRemote (Inr proseResponse)) freshState) = []"
proof -
  have r: "constRemote (Inr proseResponse) (apiKey freshState)
             (generatePrompt (preferences freshState))
           = Inr (js ''Here is your plan: '' @ roadmapText @ js '' Good luck!'')"
    by (simp add: constRemote_def proseResponse_def)
  have b1: "0x5B \<notin> set (js ''Here is your plan: '')" by (simp add: js_def)
  have b2: "0x5D \<notin> set (js '' Good luck!'')" by (simp add: js_def)
  have m: "roadmapText = 0x5B # butlast (tl roadmapText) @ [0x5D]"
    by (simp add: roadmapText_def js_def)
  from generateRoadmap_single_array
         [where s = freshState and remote = "constRemote (Inr proseResponse)",
          OF sample_valid r b1 b2 m roadmapText_parse sampleStep_valid]
  have "roadmap (generateRoadmap (constRemote (Inr proseResponse)) freshState) = [sampleStep]
        \<and> error (generateRoadmap (constRemote (Inr proseResponse)) freshState) = []"
    by simp
  with sample_valid b1 b2 m roadmapText_parse sampleStep_valid show ?thesis by blast
qed

text \<open>
  C3. When the key of the remote model is empty or consists of white space only, or
  the goal is empty or consists of white space only, the call returns at once: it ends
  before its first \<^verbatim>\<open>await\<close>, so the remote model is not called whatever it would
  answer, and the state is the old one with a message that is not empty (the message
  about the key when the key is blank, the one about the goal otherwise).
\<close>

theorem generateRoadmap_validation:
  assumes "apiKey s = [] \<or> (\<forall>c \<in> set (apiKey s). isTrimWhiteSpace c)
           \<or> goal (preferences s) = []
           \<or> (\<forall>c \<in> set (goal (preferences s)). isTrimWhiteSpace c)"
  shows "generateRoadmap remote s =
           s\<lparr>error := (if \<forall>c \<in> set (apiKey s). isTrimWhiteSpace c
                        then js ''Please enter your Gemini API key''
                        else js ''Please enter your learning goal'')\<rparr>
         \<and> generateRoadmap_begin s = Return (generateRoadmap remote s)
         \<and> (\<forall>key prompt s'. generateRoadmap_begin s \<noteq> Await key prompt s')
         \<and> error (generateRoadmap remote s) \<noteq> []"
proof -
  from assms have "trim (apiKey s) = [] \<or> trim (goal (preferences s)) = []"
    by (auto simp: trim_empty_iff)
  then show ?thesis
    by (auto simp: generateRoadmap_def generateRoadmap_begin_def js_def trim_empty_iff)
qed

theorem generateRoadmap_validation_witness:
  "list_all isTrimWhiteSpace (apiKey (freshState\<lparr>apiKey := blankKey\<rparr>))
   \<and> generateRoadmap (constRemote (Inr roadmapText)) (freshState\<lparr>apiKey := blankKey\<rparr>)
       = freshState\<lparr>apiKey := blankKey, error := js ''Please enter your Gemini API key''\<rparr>
   \<and> generateRoadmap_begin (freshState\<lparr>apiKey := blankKey\<rparr>)
       = Return (freshState\<lparr>apiKey := blankKey,
                            error := js ''Please enter your Gemini API key''\<rparr>)"
proof -
  have h: "\<forall>c \<in> set (apiKey (freshState\<lparr>apiKey := blankKey\<rparr>)). isTrimWhiteSpace c"
    by (simp add: blankKey_def isTrimWhiteSpace_def)
  with generateRoadmap_validation
         [of "freshState\<lparr>apiKey := blankKey\<rparr>" "constRemote (Inr roadmapText)"]
  show ?thesis by (simp add: list_all_iff)
qed

text \<open>
  C4. When the checks pass and the response of the remote model has no \<^verbatim>\<open>[\<close> that
  is followed, anywhere later, by a \<^verbatim>\<open>]\<close>, the \<^verbatim>\<open>try\<close> block throws the error
  \<^verbatim>\<open>Invalid response format\<close>: the roadmap is the one held before the call, the
  message of the failure is set, the session is idle again, and the saved list, the
  preferences and the store are as before.
\<close>

theorem generateRoadmap_no_bracket:
  assumes "trim (apiKey s) \<noteq> []" and "trim (goal (preferences s)) \<noteq> []"
    and "remote (apiKey s) (generatePrompt (preferences s)) = Inr response"
    and "\<not> (\<exists>pre mid post. response = pre @ [0x5B] @ mid @ [0x5D] @ post)"
  shows "parsedRoadmap (Inr response) = Inl (Error (js ''Invalid response format''))
         \<and> roadmap (generateRoadmap remote s) = roadmap s
         \<and> error (generateRoadmap remote s) =
             js ''Failed to generate roadmap. Please check your API key and try again.''
         \<and> error (generateRoadmap remote s) \<noteq> []
         \<and> loading (generateRoadmap remote s) = False
         \<and> console (generateRoadmap remote s) =
             console s @ [Error (js ''Invalid response format'')]
         \<and> savedRoadmaps (generateRoadmap remote s) = savedRoadmaps s
         \<and> preferences (generateRoadmap remote s) = preferences s
         \<and> localStorage (generateRoadmap remote s) = localStorage s"
proof -
  from assms(4) have m: "matchBracketed response = None" by (simp add: matchBracketed_None_iff)
  then have p: "parsedRoadmap (Inr response) = Inl (Error (js ''Invalid response format''))"
    by (simp add: parsedRoadmap_def)
  have e: "js ''Failed to generate roadmap. Please check your API key and try again.'' \<noteq> []"
    by (simp add: js_def)
  from p e assms(1-3) show ?thesis
    by (simp add: generateRoadmap_def generateRoadmap_begin_Await generateRoadmap_resume_def)
qed

theorem generateRoadmap_no_bracket_witness:
  "trim (apiKey sampleState) \<noteq> [] \<and> trim (goal (preferences sampleState)) \<noteq> []
   \<and> \<not> (\<exists>pre mid post. refusalResponse = pre @ [0x5B] @ mid @ [0x5D] @ post)
   \<and> roadmap (generateRoadmap (constRemote (Inr refusalResponse)) sampleState) = [sampleStep]
   \<and> error (generateRoadmap (constRemote (Inr refusalResponse)) sampleState) =
       js ''Failed to generate roadmap. Please check your API key and try again.''
   \<and> loading (generateRoadmap (constRemote (Inr refusalResponse)) sampleState) = False"
proof -
  have v: "trim (apiKey sampleState) \<noteq> []" "trim (goal (preferences sampleState)) \<noteq> []"
    by (simp_all add: trim_empty_iff sampleState_def samplePreferences_def js_def
                      isTrimWhiteSpace_def)
  have r: "constRemote (Inr refusalResponse) (apiKey sampleState)
             (generatePrompt (preferences sampleState)) = Inr refusalResponse"
    by (simp add: constRemote_def)
  have "matchBracketed refusalResponse = None"
    by (simp add: refusalResponse_def js_def matchHere_def)
  then have n: "\<not> (\<exists>pre mid post. refusalResponse = pre @ [0x5B] @ mid @ [0x5D] @ post)"
    by (rule matchBracketed_None_iff [THEN iffD1])
  note g = generateRoadmap_no_bracket
             [where s = sampleState and remote = "constRemote (Inr refusalResponse)",
              OF v r n]
  from g have "roadmap (generateRoadmap (constRemote (Inr refusalResponse)) sampleState) = [sampleStep]"
    by (simp add: sampleState_def)
  with g v n show ?thesis by blast
qed

text \<open>
  C9. After a call that succeeds (the checks pass and the \<^verbatim>\<open>try\<close> block gets a
  roadmap out of the answer of the remote model) the message is the empty string,
  whatever it was before; the roadmap is the parsed one, the session is idle and
  nothing was written to the console.
\<close>

theorem generateRoadmap_success_clears_error:
  assumes "trim (apiKey s) \<noteq> []" and "trim (goal (preferences s)) \<noteq> []"
    and "parsedRoadmap (remote (apiKey s) (generatePrompt (preferences s))) = Inr vs"
  shows "error (generateRoadmap remote s) = []
         \<and> roadmap (generateRoadmap remote s) = vs
         \<and> loading (generateRoadmap remote s) = False
         \<and> console (generateRoadmap remote s) = console s"
  using assms
  by (simp add: generateRoadmap_def generateRoadmap_begin_Await generateRoadmap_resume_def)

theorem generateRoadmap_success_clears_error_witness:
  "trim (apiKey freshState) \<noteq> [] \<and> trim (goal (preferences freshState)) \<noteq> []
   \<and> parsedRoadmap (constRemote (Inr roadmapText) (apiKey freshState)
                      (generatePrompt (preferences freshState))) = Inr [sampleStep]
   \<and> error freshState = js ''old message''
   \<and> error (generateRoadmap (constRemote (Inr roadmapText)) freshState) = []
   \<and> roadmap (generateRoadmap (constRemote (Inr roadmapText)) freshState) = [sampleStep]"
proof -
  have p: "parsedRoadmap (constRemote (Inr roadmapText) (apiKey freshState)
                      (generatePrompt (preferences freshState))) = Inr [sampleStep]"
    by (simp add: constRemote_def parsedRoadmap_def roadmapText_match roadmapText_parse)
  note g = generateRoadmap_success_clears_error
             [of freshState "constRemote (Inr roadmapText)" "[sampleStep]", OF sample_valid p]
  have "error freshState = js ''old message''" by (simp add: freshState_def)
  with g sample_valid p show ?thesis by blast
qed

section \<open>Persisting the preferences\<close>

text \<open>
  C7. What a successful call writes under \<^verbatim>\<open>lastPreferences\<close> is read back at the
  next start as the same preferences: for every value of the four fields, in every
  store, the initial preferences computed from the store that holds the written text
  are the object of that value; after a call that succeeds the store holds that text
  for the preferences of the call; and two values with the same object are the same.
\<close>

theorem lastPreferences_roundtrip:
  "initPreferences (storage(js ''lastPreferences'' \<mapsto> JSON_stringify (UserPreferences_json p)))
     = Inr (UserPreferences_json p)
   \<and> (trim (apiKey s) \<noteq> [] \<longrightarrow> trim (goal (preferences s)) \<noteq> [] \<longrightarrow>
      parsedRoadmap (remote (apiKey s) (generatePrompt (preferences s))) = Inr vs \<longrightarrow>
      localStorage (generateRoadmap remote s) (js ''lastPreferences'')
        = Some (JSON_stringify (UserPreferences_json (preferences s)))
      \<and> initPreferences (localStorage (generateRoadmap remote s))
        = Inr (UserPreferences_json (preferences s)))
   \<and> (UserPreferences_json p = UserPreferences_json q \<longrightarrow> p = q)"
proof -
  have a: "\<And>m p. m (js ''lastPreferences'') = Some (JSON_stringify (UserPreferences_json p))
             \<Longrightarrow> initPreferences m = Inr (UserPreferences_json p)"
    by (simp add: initPreferences_def stringify_nonempty parse_UserPreferences)
  have b: "trim (apiKey s) \<noteq> [] \<Longrightarrow> trim (goal (preferences s)) \<noteq> [] \<Longrightarrow>
      parsedRoadmap (remote (apiKey s) (generatePrompt (preferences s))) = Inr vs \<Longrightarrow>
      localStorage (generateRoadmap remote s) (js ''lastPreferences'')
        = Some (JSON_stringify (UserPreferences_json (preferences s)))"
    by (simp add: generateRoadmap_def generateRoadmap_begin_Await generateRoadmap_resume_def
                  js_keys_distinct)
  from a b show ?thesis by (auto dest: UserPreferences_json_inj)
qed

theorem lastPreferences_roundtrip_witness:
  "trim (apiKey freshState) \<noteq> [] \<and> trim (goal (preferences freshState)) \<noteq> []
   \<and> parsedRoadmap (constRemote (Inr roadmapText) (apiKey freshState)
                      (generatePrompt (preferences freshState))) = Inr [sampleStep]
   \<and> localStorage (generateRoadmap (constRemote (Inr roadmapText)) freshState)
        (js ''lastPreferences'')
       = Some (js ''{\"goal\":\"learn Rust\",\"timeframe\":\"3 months\",\"experience\":\"intermediate\",\"dedication\":\"5 hours/week\"}'')
   \<and> initPreferences (localStorage (generateRoadmap (constRemote (Inr roadmapText)) freshState))
       = Inr (UserPreferences_json samplePreferences)
   \<and> initPreferences (Map.empty(js ''lastPreferences'' \<mapsto>
         JSON_stringify (UserPreferences_json samplePreferences)))
       = Inr (UserPreferences_json samplePreferences)"
proof -
  have p: "parsedRoadmap (constRemote (Inr roadmapText) (apiKey freshState)
                      (generatePrompt (preferences freshState))) = Inr [sampleStep]"
    by (simp add: constRemote_def parsedRoadmap_def roadmapText_match roadmapText_parse)
  have f: "preferences freshState = samplePreferences" by (simp add: freshState_def)
  from lastPreferences_roundtrip
         [of Map.empty samplePreferences freshState "constRemote (Inr roadmapText)"
             "[sampleStep]" samplePreferences]
       sample_valid p f samplePreferences_text
  show ?thesis by simp
qed

section \<open>Saving and loading\<close>

text \<open>
  C5. In every state whose current roadmap is not empty, saving appends exactly one
  entry to the saved list: its steps are the current roadmap, its preferences the
  current preferences and its date the time of the call. The list is one longer, the
  entries saved before keep their values and positions, and the new list is what the
  key \<^verbatim>\<open>savedRoadmaps\<close> of the store holds afterwards.
\<close>

theorem saveRoadmap_appends:
  assumes "roadmap s \<noteq> []"
  shows "savedRoadmaps (saveRoadmap now s) =
           savedRoadmaps s @
             [\<lparr>saved_preferences = preferences s, steps = roadmap s, createdAt = now\<rparr>]
         \<and> length (savedRoadmaps (saveRoadmap now s)) = length (savedRoadmaps s) + 1
         \<and> take (length (savedRoadmaps s)) (savedRoadmaps (saveRoadmap now s)) = savedRoadmaps s
         \<and> steps (last (savedRoadmaps (saveRoadmap now s))) = roadmap s
         \<and> saved_preferences (last (savedRoadmaps (saveRoadmap now s))) = preferences s
         \<and> localStorage (saveRoadmap now s) (js ''savedRoadmaps'') =
             Some (JSON_stringify
                     (JArray (map SavedRoadmap_json (savedRoadmaps (saveRoadmap now s)))))"
  using assms by (simp add: saveRoadmap_def Let_def)

theorem saveRoadmap_appends_witness:
  "roadmap sampleState \<noteq> []
   \<and> savedRoadmaps (saveRoadmap sampleNow sampleState) =
       [sampleSaved,
        \<lparr>saved_preferences = samplePreferences, steps = [sampleStep], createdAt = sampleNow\<rparr>]
   \<and> length (savedRoadmaps (saveRoadmap sampleNow sampleState)) = 2"
proof -
  have h: "roadmap sampleState \<noteq> []" by (simp add: sampleState_def)
  from saveRoadmap_appends [OF h, of sampleNow] h show ?thesis
    by (simp add: sampleState_def)
qed

text \<open>
  C6. Loading a saved entry makes its stored preferences the current preferences and
  its stored steps the current roadmap; the saved list and the store stay as they are.
\<close>

theorem loadRoadmap_replaces:
  "preferences (loadRoadmap saved s) = saved_preferences saved
   \<and> roadmap (loadRoadmap saved s) = steps saved
   \<and> savedRoadmaps (loadRoadmap saved s) = savedRoadmaps s
   \<and> localStorage (loadRoadmap saved s) = localStorage s"
  by (simp add: loadRoadmap_def)

theorem loadRoadmap_replaces_witness:
  "sampleSaved \<in> set (savedRoadmaps sampleState)
   \<and> preferences (loadRoadmap sampleSaved sampleState) = defaultPreferences\<lparr>goal := js ''learn Go''\<rparr>
   \<and> roadmap (loadRoadmap sampleSaved sampleState) = [JNull]
   \<and> savedRoadmaps (loadRoadmap sampleSaved sampleState) = [sampleSaved]"
  using loadRoadmap_replaces [of sampleSaved sampleState]
  by (simp add: sampleState_def sampleSaved_def)

text \<open>
  C8. In every state whose current roadmap is empty, saving changes nothing: the state
  after the call is the state before it, so the saved list and the store are the same.
\<close>

theorem saveRoadmap_empty:
  assumes "roadmap s = []"
  shows "saveRoadmap now s = s
         \<and> savedRoadmaps (saveRoadmap now s) = savedRoadmaps s
         \<and> length (savedRoadmaps (saveRoadmap now s)) = length (savedRoadmaps s)
         \<and> localStorage (saveRoadmap now s) = localStorage s"
  using assms by (simp add: saveRoadmap_def)

theorem saveRoadmap_empty_witness:
  "roadmap (sampleState\<lparr>roadmap := []\<rparr>) = []
   \<and> saveRoadmap sampleNow (sampleState\<lparr>roadmap := []\<rparr>) = sampleState\<lparr>roadmap := []\<rparr>
   \<and> savedRoadmaps (saveRoadmap sampleNow (sampleState\<lparr>roadmap := []\<rparr>)) = [sampleSaved]"
proof -
  have h: "roadmap (sampleState\<lparr>roadmap := []\<rparr>) = []" by simp
  from saveRoadmap_empty [OF h, of sampleNow] h show ?thesis
    by (simp add: sampleState_def)
qed

text \<open>
  C10. Saving touches the saved list and one key of the store only: the current
  roadmap, the preferences, the key of the remote model, the message, the busy flag,
  the display mode, the setup panel and the console are the same before and after, and
  every key of the store other than \<^verbatim>\<open>savedRoadmaps\<close> holds what it held.
\<close>

theorem saveRoadmap_frame:
  "roadmap (saveRoadmap now s) = roadmap s
   \<and> preferences (saveRoadmap now s) = preferences s
   \<and> apiKey (saveRoadmap now s) = apiKey s
   \<and> error (saveRoadmap now s) = error s
   \<and> loading (saveRoadmap now s) = loading s
   \<and> isDarkMode (saveRoadmap now s) = isDarkMode s
   \<and> showApiInput (saveRoadmap now s) = showApiInput s
   \<and> console (saveRoadmap now s) = console s
   \<and> (\<forall>k. k \<noteq> js ''savedRoadmaps'' \<longrightarrow>
          localStorage (saveRoadmap now s) k = localStorage s k)"
  by (simp add: saveRoadmap_def Let_def)

theorem saveRoadmap_frame_witness:
  "js ''geminiApiKey'' \<noteq> js ''savedRoadmaps''
   \<and> localStorage (saveRoadmap sampleNow sampleState) (js ''geminiApiKey'') = Some (js ''secret'')
   \<and> localStorage (saveRoadmap sampleNow sampleState) (js ''savedRoadmaps'') \<noteq> None
   \<and> error (saveRoadmap sampleNow sampleState) = js ''old message''
   \<and> roadmap (saveRoadmap sampleNow sampleState) = [sampleStep]"
proof -
  have k: "js ''geminiApiKey'' \<noteq> js ''savedRoadmaps''" by (simp add: js_def)
  have w: "localStorage (saveRoadmap sampleNow sampleState) (js ''savedRoadmaps'') \<noteq> None"
    by (simp add: saveRoadmap_def Let_def sampleState_def)
  from saveRoadmap_frame [of sampleNow sampleState] k w show ?thesis
    by (simp add: sampleState_def)
qed

end
